theory Spec2Isabelle
  imports Main "HOL-Library.AList"
begin

section \<open>Values, exceptions and callables\<close>

text \<open>
  The Python values that the routing layer inspects: the result of a check is compared
  with \<^verbatim>\<open>is False\<close>, option values and selected component values are passed on to
  handlers unchanged.
\<close>

datatype pyval = PyNone | PyBool bool | PyInt int | PyStr string

text \<open>\<^verbatim>\<open>x is False\<close>: identity with the singleton \<^verbatim>\<open>False\<close>, not falsiness.\<close>

fun is_False :: "pyval \<Rightarrow> bool" where
  "is_False (PyBool b) = (\<not> b)"
| "is_False PyNone = False"
| "is_False (PyInt i) = False"
| "is_False (PyStr s) = False"

text \<open>
  The exceptions the library raises itself, with their messages, and \<open>Raised\<close> with the
  name of its class for any other exception: one that comes out of user code (a check, a
  handler), or one that Python raises when a function is called with the wrong number of
  arguments (a \<^verbatim>\<open>TypeError\<close>) or an attribute is missing.
\<close>

datatype exn = TypeError string | ValueError string | CheckFailure string | Raised string

text \<open>\<^verbatim>\<open>not s\<close> for an \<^verbatim>\<open>Optional[str]\<close>: true for \<^verbatim>\<open>None\<close> and for the empty string.\<close>

definition falsy :: "string option \<Rightarrow> bool" where
  "falsy s = (case s of None \<Rightarrow> True | Some t \<Rightarrow> t = [])"

section \<open>Message components (components.py)\<close>

text \<open>
  \<^verbatim>\<open>ButtonStyle\<close> is declared in simples.py, which is not among the sources; the class
  documentation of \<^verbatim>\<open>Button\<close> says that there are four colors and one link style.
  \<^verbatim>\<open>Button.__init__\<close> only compares the style with \<^verbatim>\<open>ButtonStyle.LINK\<close>, so the
  color styles are told apart by a number.
\<close>

datatype ButtonStyle = Color nat | LINK

record PartialEmoji =
  emoji_name :: string

text \<open>The \<^verbatim>\<open>emoji\<close> argument: a string (taken as a unicode emoji) or an emoji object.\<close>

datatype emoji_arg = EmojiStr string | EmojiObj PartialEmoji

record Button =
  style :: ButtonStyle
  label :: "string option"
  emoji :: "PartialEmoji option"
  custom_id :: "string option"
  url :: "string option"
  disabled :: bool

fun to_emoji :: "emoji_arg \<Rightarrow> PartialEmoji" where
  "to_emoji (EmojiStr s) = \<lparr>emoji_name = s\<rparr>"
| "to_emoji (EmojiObj e) = e"

text \<open>
  \<^verbatim>\<open>Button.__init__\<close>, lines 126 to 153 of components.py. The two branches on the style
  test their required field with \<^verbatim>\<open>not\<close> (falsiness) and their forbidden field with
  \<^verbatim>\<open>is not None\<close>.
\<close>

definition Button_build ::
  "ButtonStyle \<Rightarrow> string option \<Rightarrow> emoji_arg option \<Rightarrow> string option \<Rightarrow> string option \<Rightarrow> bool
    \<Rightarrow> exn + Button" where
  "Button_build style' label' emoji' custom_id' url' disabled' =
    (if label' = None \<and> emoji' = None then
       Inl (TypeError ''Button must have at least one of label or emoji'')
     else
       Inr \<lparr>style = style', label = label', emoji = map_option to_emoji emoji',
            custom_id = custom_id', url = url', disabled = disabled'\<rparr>)"

definition Button_init ::
  "ButtonStyle \<Rightarrow> string option \<Rightarrow> emoji_arg option \<Rightarrow> string option \<Rightarrow> string option \<Rightarrow> bool
    \<Rightarrow> exn + Button" where
  "Button_init style' label' emoji' custom_id' url' disabled' =
    (if style' = LINK then
       (if custom_id' \<noteq> None then
          Inl (TypeError ''custom_id not allowed on LINK-style Buttons'')
        else if falsy url' then
          Inl (TypeError ''LINK-style Buttons must have a url'')
        else Button_build style' label' emoji' custom_id' url' disabled')
     else
       (if falsy custom_id' then
          Inl (TypeError ''Non-LINK Buttons must have a custom_id'')
        else if url' \<noteq> None then
          Inl (TypeError ''url not allowed on non-LINK Buttons'')
        else Button_build style' label' emoji' custom_id' url' disabled'))"

text \<open>
  The condition under which claim C10 says that the construction of a button raises, word
  for word: absent is \<^verbatim>\<open>None\<close>, supplied is anything else.
\<close>

definition claimed_Button_raises ::
  "ButtonStyle \<Rightarrow> string option \<Rightarrow> emoji_arg option \<Rightarrow> string option \<Rightarrow> string option \<Rightarrow> bool" where
  "claimed_Button_raises style' label' emoji' custom_id' url' =
    ((style' = LINK \<and> (url' = None \<or> custom_id' \<noteq> None))
     \<or> (style' \<noteq> LINK \<and> (custom_id' = None \<or> url' \<noteq> None))
     \<or> (label' = None \<and> emoji' = None))"

section \<open>Callables and the call log (command.py)\<close>

text \<open>
  A function object is referred to by its identity. \<open>UserFn n\<close> is a function written by
  the bot's author; what it does when called is looked up in a table \<open>impl\<close> that the
  operations take as a parameter. The other references are the closures that the library
  creates itself: the default check of \<^verbatim>\<open>BaseCallback.__init__\<close>, the wrapper that
  \<^verbatim>\<open>BaseCallback.check\<close> puts around a check that is not a coroutine function, and the three
  matchers of \<^verbatim>\<open>ComponentCallback.__init__\<close>. Each of these closures takes exactly one
  positional argument.
\<close>

datatype fn_ref =
    UserFn nat
  | DefaultCheck
  | AsyncCheck nat
  | MatchComp "string option"
  | MatchId string
  | MatchSync nat

text \<open>
  The interaction context, as far as command.py reads it: \<^verbatim>\<open>ctx.options\<close>,
  \<^verbatim>\<open>ctx.custom_id\<close> and \<^verbatim>\<open>ctx.values\<close>. The bot that \<^verbatim>\<open>ctx.client\<close> and
  \<^verbatim>\<open>ctx.bot\<close> refer to is passed to the operations as an argument of its own. The
  arguments of the calls to \<^verbatim>\<open>logger.debug\<close> are read and dropped.
\<close>

record Context =
  ctx_options :: "(string \<times> pyval) list"
  ctx_custom_id :: string
  ctx_values :: "pyval list"

text \<open>A positional argument of a call: a cog instance (by identity), the context, a value.\<close>

datatype arg = ArgCog nat | ArgCtx Context | ArgVal pyval

text \<open>
  What the check and handler lists hold: a function, \<^verbatim>\<open>partial(f, cog)\<close>, or the bound
  method \<^verbatim>\<open>cog.cog_check\<close>. Two bound methods are equal when they are bound to the same
  instance and wrap the same function.
\<close>

datatype callable = Plain fn_ref | Partial fn_ref nat | Method nat fn_ref

datatype outcome = Returns pyval | Raises exn

type_synonym kwargs = "(string \<times> pyval) list"

type_synonym impl = "nat \<Rightarrow> arg list \<Rightarrow> kwargs \<Rightarrow> outcome"

definition arity_error :: outcome where
  "arity_error = Raises (Raised ''TypeError'')"

fun run :: "impl \<Rightarrow> fn_ref \<Rightarrow> arg list \<Rightarrow> kwargs \<Rightarrow> outcome" where
  "run impl (UserFn n) args kw = impl n args kw"
| "run impl DefaultCheck args kw =
     (case (args, kw) of ([a], []) \<Rightarrow> Returns (PyBool True) | _ \<Rightarrow> arity_error)"
| "run impl (AsyncCheck n) args kw =
     (case (args, kw) of ([a], []) \<Rightarrow> impl n [a] [] | _ \<Rightarrow> arity_error)"
| "run impl (MatchComp cid) args kw =
     (case (args, kw) of
        ([ArgCtx ctx], []) \<Rightarrow> Returns (PyBool (Some (ctx_custom_id ctx) = cid))
      | ([a], []) \<Rightarrow> Raises (Raised ''AttributeError'')
      | _ \<Rightarrow> arity_error)"
| "run impl (MatchId cid) args kw =
     (case (args, kw) of
        ([ArgCtx ctx], []) \<Rightarrow> Returns (PyBool (ctx_custom_id ctx = cid))
      | ([a], []) \<Rightarrow> Raises (Raised ''AttributeError'')
      | _ \<Rightarrow> arity_error)"
| "run impl (MatchSync n) args kw =
     (case (args, kw) of ([a], []) \<Rightarrow> impl n [a] [] | _ \<Rightarrow> arity_error)"

fun call :: "impl \<Rightarrow> callable \<Rightarrow> arg list \<Rightarrow> kwargs \<Rightarrow> outcome" where
  "call impl (Plain f) args kw = run impl f args kw"
| "call impl (Partial f c) args kw = run impl f (ArgCog c # args) kw"
| "call impl (Method c f) args kw = run impl f (ArgCog c # args) kw"

text \<open>
  The log of what an operation did, in order: the calls it made, with their arguments, and
  the events it dispatched on the bot (\<^verbatim>\<open>bot.dispatch(name, callback)\<close>).
\<close>

datatype event = Called callable "arg list" kwargs | Dispatched string nat

section \<open>Commands and groups\<close>

text \<open>
  A cog instance: its identity and, when its class defines one, the function behind its
  \<^verbatim>\<open>cog_check\<close> method (\<^verbatim>\<open>hasattr(cog, 'cog_check')\<close>).
\<close>

record cog =
  cog_id :: nat
  cog_check :: "fn_ref option"

text \<open>
  \<^verbatim>\<open>ApplicationCommandPermissionType\<close> is declared in simples.py; \<^verbatim>\<open>add_perm\<close> uses
  its members ROLE and USER.
\<close>

datatype ApplicationCommandPermissionType = ROLE | USER

text \<open>
  A class used as an annotation, as far as \<^verbatim>\<open>Command.__init__\<close> looks at it:
  \<^verbatim>\<open>issubclass(typ, Context)\<close> and \<^verbatim>\<open>issubclass(typ, ChoiceEnum)\<close>.
\<close>

record cls =
  cls_name :: string
  sub_Context :: bool
  sub_ChoiceEnum :: bool

text \<open>
  A \<^verbatim>\<open>Command\<close>; a \<^verbatim>\<open>Group\<close> is a command too, and the only thing the operations
  below read of a parent is what every command has. The \<^verbatim>\<open>parent\<close> reference makes a
  finite chain up to a top-level command. Dictionaries are association lists in insertion
  order; an \<^verbatim>\<open>Option\<close> object is referred to by its address in a store of such objects.
\<close>

type_synonym CommandPermissionsDict =
  "(int option \<times> ((int \<times> ApplicationCommandPermissionType) \<times> bool) list) list"

datatype command = Command
  (cmd_id: "int option")
  (name: string)
  (description: string)
  (guild_id: "int option")
  (parent: "command option")
  (default_permission: bool)
  (permissions: CommandPermissionsDict)
  (ctx_arg: "(string \<times> cls) option")
  (options: "(string \<times> nat) list")
  (cog: "cog option")
  (check: fn_ref)
  (coro: fn_ref)

record SlashBot =
  bot_checks :: "callable list"
  comp_callbacks :: "nat set"

text \<open>\<^verbatim>\<open>Command.qualname\<close>, lines 199 to 204.\<close>

fun qualname :: "command \<Rightarrow> string" where
  "qualname (Command i n d g None dp pm ca os cg ch co) = n"
| "qualname (Command i n d g (Some p) dp pm ca os cg ch co) = qualname p @ '' '' @ n"

text \<open>
  The \<^verbatim>\<open>while parent is not None\<close> loop of \<^verbatim>\<open>Command.can_run\<close>, lines 313 to 322, on
  the variables \<^verbatim>\<open>parent\<close>, \<^verbatim>\<open>parents\<close> and \<^verbatim>\<open>cogs\<close>.
\<close>

fun collect_checks :: "command option \<Rightarrow> callable list \<Rightarrow> callable list
    \<Rightarrow> callable list \<times> callable list" where
  "collect_checks None parents cogs = (parents, cogs)"
| "collect_checks (Some (Command i n d g pp dp pm ca os cg ch co)) parents cogs =
     (case cg of
        Some c \<Rightarrow>
          collect_checks pp (parents @ [Partial ch (cog_id c)])
            (case cog_check c of
               Some m \<Rightarrow>
                 if Method (cog_id c) m \<notin> set cogs then cogs @ [Method (cog_id c) m] else cogs
             | None \<Rightarrow> cogs)
      | None \<Rightarrow> collect_checks pp (parents @ [Plain ch]) cogs)"

text \<open>The list \<^verbatim>\<open>parents\<close> when the \<^verbatim>\<open>for\<close> loop of \<^verbatim>\<open>can_run\<close> starts (line 326).\<close>

definition checks_to_run :: "SlashBot \<Rightarrow> command \<Rightarrow> callable list" where
  "checks_to_run client self =
     (case collect_checks (parent self) [] [] of
        (parents, cogs) \<Rightarrow> rev ((parents @ cogs) @ bot_checks client) @ [Plain (check self)])"

text \<open>
  The \<^verbatim>\<open>for check in parents\<close> loop, lines 327 to 330. An exception out of a check
  ends the loop and propagates.
\<close>

fun run_checks :: "impl \<Rightarrow> callable list \<Rightarrow> Context \<Rightarrow> event list \<Rightarrow> (exn + bool) \<times> event list" where
  "run_checks impl [] ctx log = (Inr True, log)"
| "run_checks impl (c # cs) ctx log =
     (case call impl c [ArgCtx ctx] [] of
        Raises e \<Rightarrow> (Inl e, log @ [Called c [ArgCtx ctx] []])
      | Returns v \<Rightarrow>
          if is_False v then (Inr False, log @ [Called c [ArgCtx ctx] []])
          else run_checks impl cs ctx (log @ [Called c [ArgCtx ctx] []]))"

definition can_run :: "impl \<Rightarrow> SlashBot \<Rightarrow> command \<Rightarrow> Context \<Rightarrow> event list
    \<Rightarrow> (exn + bool) \<times> event list" where
  "can_run impl client self ctx log = run_checks impl (checks_to_run client self) ctx log"

text \<open>\<^verbatim>\<open>Command.invoke_parents\<close>, lines 332 to 343: the \<^verbatim>\<open>while\<close> loop, then the \<^verbatim>\<open>for\<close> loop.\<close>

fun collect_coros :: "command option \<Rightarrow> callable list \<Rightarrow> callable list" where
  "collect_coros None parents = parents"
| "collect_coros (Some (Command i n d g pp dp pm ca os cg ch co)) parents =
     (case cg of
        Some c \<Rightarrow> collect_coros pp (parents @ [Partial co (cog_id c)])
      | None \<Rightarrow> collect_coros pp (parents @ [Plain co]))"

fun run_coros :: "impl \<Rightarrow> callable list \<Rightarrow> Context \<Rightarrow> event list \<Rightarrow> (exn + unit) \<times> event list" where
  "run_coros impl [] ctx log = (Inr (), log)"
| "run_coros impl (c # cs) ctx log =
     (case call impl c [ArgCtx ctx] [] of
        Raises e \<Rightarrow> (Inl e, log @ [Called c [ArgCtx ctx] []])
      | Returns v \<Rightarrow> run_coros impl cs ctx (log @ [Called c [ArgCtx ctx] []]))"

definition invoke_parents :: "impl \<Rightarrow> command \<Rightarrow> Context \<Rightarrow> event list \<Rightarrow> (exn + unit) \<times> event list" where
  "invoke_parents impl self ctx log =
     run_coros impl (rev (collect_coros (parent self) [])) ctx log"

text \<open>
  The call of the leaf's own handler, lines 305 to 308: the cog, if any, is the only
  positional argument and \<^verbatim>\<open>ctx.options\<close>, as the context holds them, are the
  keyword arguments.
\<close>

definition leaf_call :: "command \<Rightarrow> Context \<Rightarrow> event" where
  "leaf_call self ctx =
     (case cog self of
        Some c \<Rightarrow> Called (Plain (coro self)) [ArgCog (cog_id c)] (ctx_options ctx)
      | None \<Rightarrow> Called (Plain (coro self)) [] (ctx_options ctx))"

definition happen :: "impl \<Rightarrow> event \<Rightarrow> outcome" where
  "happen impl ev = (case ev of Called c args kw \<Rightarrow> call impl c args kw
                     | Dispatched n a \<Rightarrow> Returns PyNone)"

text \<open>\<^verbatim>\<open>Command.invoke\<close>, lines 296 to 308.\<close>

definition invoke :: "impl \<Rightarrow> SlashBot \<Rightarrow> command \<Rightarrow> Context \<Rightarrow> event list
    \<Rightarrow> (exn + unit) \<times> event list" where
  "invoke impl client self ctx log =
     (case can_run impl client self ctx log of
        (Inl e, log1) \<Rightarrow> (Inl e, log1)
      | (Inr ok, log1) \<Rightarrow>
          if \<not> ok then
            (Inl (CheckFailure (''The check functions for '' @ qualname self @ '' failed.'')), log1)
          else
            (case invoke_parents impl self ctx log1 of
               (Inl e, log2) \<Rightarrow> (Inl e, log2)
             | (Inr u, log2) \<Rightarrow>
                 (case happen impl (leaf_call self ctx) of
                    Raises e \<Rightarrow> (Inl e, log2 @ [leaf_call self ctx])
                  | Returns v \<Rightarrow> (Inr (), log2 @ [leaf_call self ctx]))))"

section \<open>Construction of a command (Command.__init__)\<close>

text \<open>
  Modelled from the spec: the class \<^verbatim>\<open>Option\<close> is declared in option.py, which is not
  among the sources. The fields are those of the spec's OptionSchema; \<^verbatim>\<open>Command.__init__\<close>
  reads and writes \<^verbatim>\<open>name\<close> and \<^verbatim>\<open>required\<close> only. An \<^verbatim>\<open>Option\<close> object lives in a
  store, a list of objects in which an object's address is its index, so that two
  references to the same object can be told from two equal objects.
\<close>

record Option =
  opt_name :: "string option"
  opt_description :: string
  opt_type :: nat
  opt_required :: bool
  opt_choices :: "(string \<times> pyval) list"

text \<open>
  The annotation of a parameter: none (\<^verbatim>\<open>param.empty\<close>, itself a class), a string still
  to be evaluated, an \<^verbatim>\<open>Option\<close> object (by address), a class, or any other object.
\<close>

datatype annotation = AEmpty | AStr string | AOption nat | AClass cls | AObject

text \<open>A parameter of \<^verbatim>\<open>signature(coro)\<close>: its name, its annotation, whether it has a default.\<close>

record param =
  p_name :: string
  p_annotation :: annotation
  p_has_default :: bool

text \<open>A function given as a check or a matcher, and \<^verbatim>\<open>iscoroutinefunction\<close> of it.\<close>

record pyfunc =
  f_id :: nat
  f_is_coroutine :: bool

text \<open>
  The handler function \<^verbatim>\<open>coro\<close>: its identity, \<^verbatim>\<open>__name__\<close>, \<^verbatim>\<open>__doc__\<close>, its
  parameters in the order of declaration, and what \<^verbatim>\<open>eval\<close> makes of a string in the
  namespace of its module (\<open>None\<close> when \<^verbatim>\<open>eval\<close> raises).
\<close>

record handler =
  h_fn :: nat
  h_name :: string
  h_doc :: "string option"
  h_params :: "param list"
  h_eval :: "string \<Rightarrow> annotation option"

text \<open>
  The keyword arguments that \<^verbatim>\<open>Command.__init__\<close> pops. For \<^verbatim>\<open>description\<close> and
  \<^verbatim>\<open>guild_id\<close> the outer option says whether the key was given at all.
\<close>

record cmd_kwargs =
  kw_check :: "pyfunc option"
  kw_name :: "string option"
  kw_description :: "string option option"
  kw_guild_id :: "int option option"
  kw_guild :: "int option"
  kw_parent :: "command option"
  kw_default_permission :: "bool option"

text \<open>\<^verbatim>\<open>BaseCallback.check\<close>, lines 39 to 47, and \<^verbatim>\<open>BaseCallback.__init__\<close>, lines 29 to 34.\<close>

definition BaseCallback_check :: "pyfunc \<Rightarrow> fn_ref" where
  "BaseCallback_check f = (if f_is_coroutine f then UserFn (f_id f) else AsyncCheck (f_id f))"

definition BaseCallback_init :: "pyfunc option \<Rightarrow> fn_ref" where
  "BaseCallback_init chk = (case chk of Some f \<Rightarrow> BaseCallback_check f | None \<Rightarrow> DefaultCheck)"

text \<open>
  \<^verbatim>\<open>{self.name!r}\<close> in an error message: the name in single quotes, which is what
  \<^verbatim>\<open>repr\<close> gives for a name without quotes, backslashes and control characters.
\<close>

definition repr :: "string \<Rightarrow> string" where
  "repr s = [CHR 0x27] @ s @ [CHR 0x27]"

text \<open>Lines 160 to 167: a string annotation is evaluated, and dropped when that fails.\<close>

definition resolve :: "(string \<Rightarrow> annotation option) \<Rightarrow> annotation \<Rightarrow> annotation" where
  "resolve ev a =
     (case a of AStr s \<Rightarrow> (case ev s of Some t \<Rightarrow> t | None \<Rightarrow> AEmpty) | _ \<Rightarrow> a)"

text \<open>
  Lines 169 and 170: \<^verbatim>\<open>isinstance(typ, Option) or (isinstance(typ, type) and
  (issubclass(typ, ChoiceEnum) or issubclass(typ, Context)))\<close>.
\<close>

definition valid_annotation :: "annotation \<Rightarrow> bool" where
  "valid_annotation typ =
     (case typ of AOption a \<Rightarrow> True | AClass c \<Rightarrow> sub_ChoiceEnum c \<or> sub_Context c | _ \<Rightarrow> False)"

text \<open>
  The variables of the loop over the parameters: \<^verbatim>\<open>found_self_arg\<close>, \<^verbatim>\<open>self._ctx_arg\<close>,
  \<^verbatim>\<open>self.options\<close> (names to addresses), and the store of \<^verbatim>\<open>Option\<close> objects.
\<close>

record init_state =
  found_self_arg :: bool
  st_ctx_arg :: "(string \<times> cls) option"
  st_options :: "(string \<times> nat) list"
  st_heap :: "Option list"

text \<open>
  Modelled from the spec: \<^verbatim>\<open>Option.clone\<close> (option.py) "produces an independent copy":
  a new object with the fields of the old one. It returns the address of the copy. An
  address that an annotation holds is the address of an object in the store.
\<close>

definition clone :: "nat \<Rightarrow> Option list \<Rightarrow> nat \<times> Option list" where
  "clone a heap = (length heap, heap @ [heap ! a])"

text \<open>
  Lines 189 to 195, for an annotation that is the \<^verbatim>\<open>Option\<close> object at address \<open>a\<close>:
  clone it, set \<^verbatim>\<open>required\<close> if the parameter has no default, enter the clone in
  \<^verbatim>\<open>self.options\<close>, and give it the parameter's name if it has none.
\<close>

definition store_option :: "param \<Rightarrow> nat \<Rightarrow> init_state \<Rightarrow> init_state" where
  "store_option p a st =
     (case clone a (st_heap st) of
        (t, heap1) \<Rightarrow>
          let heap2 = (if \<not> p_has_default p then heap1[t := (heap1 ! t)\<lparr>opt_required := True\<rparr>]
                       else heap1);
              options' = AList.update (p_name p) t (st_options st);
              heap3 = (if opt_name (heap2 ! t) = None
                       then heap2[t := (heap2 ! t)\<lparr>opt_name := Some (p_name p)\<rparr>]
                       else heap2)
          in st\<lparr>st_options := options', st_heap := heap3\<rparr>)"

text \<open>
  Lines 182 to 195. \<^verbatim>\<open>issubclass\<close> raises a \<^verbatim>\<open>TypeError\<close>, which is caught, for
  anything that is not a class. \<^verbatim>\<open>Option(description=typ)\<close> for a \<^verbatim>\<open>ChoiceEnum\<close> class
  is the parameter \<open>choice_option\<close>: the constructor of \<^verbatim>\<open>Option\<close> is not among the sources.
\<close>

definition classify :: "(cls \<Rightarrow> Option) \<Rightarrow> param \<Rightarrow> annotation \<Rightarrow> init_state \<Rightarrow> init_state" where
  "classify choice_option p typ st =
     (case typ of
        AClass c \<Rightarrow>
          if sub_Context c then st\<lparr>st_ctx_arg := Some (p_name p, c)\<rparr>
          else if sub_ChoiceEnum c then
            store_option p (length (st_heap st)) (st\<lparr>st_heap := st_heap st @ [choice_option c]\<rparr>)
          else st
      | AOption a \<Rightarrow> store_option p a st
      | _ \<Rightarrow> st)"

text \<open>The body of the loop, lines 160 to 195, and the loop.\<close>

definition inspect_param ::
  "(cls \<Rightarrow> Option) \<Rightarrow> (string \<Rightarrow> annotation option) \<Rightarrow> string \<Rightarrow> param \<Rightarrow> init_state
    \<Rightarrow> exn + init_state" where
  "inspect_param choice_option ev nm p st =
     (let typ = resolve ev (p_annotation p) in
      if \<not> valid_annotation typ \<and> \<not> p_has_default p then
        (if \<not> found_self_arg st then Inr (st\<lparr>found_self_arg := True\<rparr>)
         else Inl (TypeError (''Command '' @ repr nm
                 @ '' cannot have a required argument with no valid annotation'')))
      else Inr (classify choice_option p typ st))"

fun inspect_params ::
  "(cls \<Rightarrow> Option) \<Rightarrow> (string \<Rightarrow> annotation option) \<Rightarrow> string \<Rightarrow> param list \<Rightarrow> init_state
    \<Rightarrow> exn + init_state" where
  "inspect_params choice_option ev nm [] st = Inr st"
| "inspect_params choice_option ev nm (p # ps) st =
     (case inspect_param choice_option ev nm p st of
        Inl e \<Rightarrow> Inl e
      | Inr st' \<Rightarrow> inspect_params choice_option ev nm ps st')"

text \<open>
  \<^verbatim>\<open>Command.__init__\<close>, lines 143 to 197, on a store \<open>heap\<close> of \<^verbatim>\<open>Option\<close> objects; it
  returns the command and the store. The guild id is an \<^verbatim>\<open>int\<close> already, and
  \<^verbatim>\<open>cog\<close> is the class attribute \<^verbatim>\<open>None\<close>.
\<close>

definition init_name :: "handler \<Rightarrow> cmd_kwargs \<Rightarrow> string" where
  "init_name f kw = (case kw_name kw of Some n \<Rightarrow> n | None \<Rightarrow> h_name f)"

definition init_description :: "handler \<Rightarrow> cmd_kwargs \<Rightarrow> string option" where
  "init_description f kw = (case kw_description kw of Some d \<Rightarrow> d | None \<Rightarrow> h_doc f)"

definition Command_init ::
  "(cls \<Rightarrow> Option) \<Rightarrow> handler \<Rightarrow> cmd_kwargs \<Rightarrow> Option list \<Rightarrow> exn + command \<times> Option list" where
  "Command_init choice_option f kw heap =
     (case init_description f kw of
        None \<Rightarrow> Inl (ValueError (''Please specify a description for '' @ repr (init_name f kw)))
      | Some d \<Rightarrow>
          if d = [] then
            Inl (ValueError (''Please specify a description for '' @ repr (init_name f kw)))
          else
            (case inspect_params choice_option (h_eval f) (init_name f kw) (h_params f)
                    \<lparr>found_self_arg = False, st_ctx_arg = None, st_options = [], st_heap = heap\<rparr> of
               Inl e \<Rightarrow> Inl e
             | Inr st \<Rightarrow>
                 (case st_ctx_arg st of
                    None \<Rightarrow> Inl (ValueError ''One argument must be type-hinted slash.Context'')
                  | Some ca \<Rightarrow>
                      Inr (Command None (init_name f kw) d
                             (case kw_guild_id kw of Some g \<Rightarrow> g | None \<Rightarrow> kw_guild kw)
                             (kw_parent kw)
                             (case kw_default_permission kw of Some b \<Rightarrow> b | None \<Rightarrow> True)
                             [] (Some ca) (st_options st) None
                             (BaseCallback_init (kw_check kw)) (UserFn (h_fn f)),
                           st_heap st))))"

text \<open>
  A required parameter with no valid annotation; the parameter that a \<^verbatim>\<open>Context\<close>
  annotation binds; what is stored for a parameter annotated with the \<^verbatim>\<open>Option\<close> object
  \<open>proto\<close>.
\<close>

definition unannotated_required :: "(string \<Rightarrow> annotation option) \<Rightarrow> param \<Rightarrow> bool" where
  "unannotated_required ev p =
     (\<not> valid_annotation (resolve ev (p_annotation p)) \<and> \<not> p_has_default p)"

definition ctx_param :: "(string \<Rightarrow> annotation option) \<Rightarrow> param \<Rightarrow> (string \<times> cls) option" where
  "ctx_param ev p =
     (case resolve ev (p_annotation p) of
        AClass c \<Rightarrow> if sub_Context c then Some (p_name p, c) else None
      | _ \<Rightarrow> None)"

definition stored_option :: "param \<Rightarrow> Option \<Rightarrow> Option" where
  "stored_option p proto =
     proto\<lparr>opt_required := (if p_has_default p then opt_required proto else True),
           opt_name := (case opt_name proto of None \<Rightarrow> Some (p_name p) | Some n \<Rightarrow> Some n)\<rparr>"

section \<open>Permission overrides (Command.add_perm, Command.perms_dict)\<close>

text \<open>
  The target of an override, as far as \<^verbatim>\<open>add_perm\<close> looks at it: a \<^verbatim>\<open>discord.Role\<close>
  or a \<^verbatim>\<open>discord.Member\<close> (with \<^verbatim>\<open>id\<close> and \<^verbatim>\<open>guild.id\<close>), a \<^verbatim>\<open>discord.User\<close> with
  no guild, or a bare \<^verbatim>\<open>discord.Object\<close>.
\<close>

datatype target = Role int int | Member int int | User int | Object int

fun target_id :: "target \<Rightarrow> int" where
  "target_id (Role i g) = i"
| "target_id (Member i g) = i"
| "target_id (User i) = i"
| "target_id (Object i) = i"

text \<open>The \<^verbatim>\<open>guild_id\<close> argument: left at its default \<^verbatim>\<open>...\<close>, or given (\<^verbatim>\<open>None\<close> or an id).\<close>

datatype guild_arg = Unspecified | Guild "int option"

text \<open>A write to \<^verbatim>\<open>self.permissions\<close>.\<close>

fun set_permissions :: "command \<Rightarrow> CommandPermissionsDict \<Rightarrow> command" where
  "set_permissions (Command i n d g pp dp pm ca os cg ch co) pm' =
     Command i n d g pp dp pm' ca os cg ch co"

text \<open>
  \<^verbatim>\<open>d.get(k, {})\<close>, and \<^verbatim>\<open>d.update(items)\<close> on dictionaries in insertion order: a
  key that is there keeps its place and gets the new value, a new key goes to the end.
\<close>

definition dict_get :: "('k \<times> 'v list) list \<Rightarrow> 'k \<Rightarrow> 'v list" where
  "dict_get d k = (case map_of d k of Some v \<Rightarrow> v | None \<Rightarrow> [])"

definition dict_update :: "('k \<times> 'v) list \<Rightarrow> ('k \<times> 'v) list \<Rightarrow> ('k \<times> 'v) list" where
  "dict_update d items = fold (\<lambda>(k, v). AList.update k v) items d"

text \<open>\<^verbatim>\<open>Command.add_perm\<close>, lines 280 to 294.\<close>

definition infer_type ::
  "target \<Rightarrow> ApplicationCommandPermissionType option \<Rightarrow> exn + ApplicationCommandPermissionType" where
  "infer_type tgt ty =
     (case ty of
        Some t \<Rightarrow> Inr t
      | None \<Rightarrow>
          (case tgt of
             Role i g \<Rightarrow> Inr ROLE
           | Member i g \<Rightarrow> Inr USER
           | User i \<Rightarrow> Inr USER
           | Object i \<Rightarrow> Inl (ValueError ''Must specify type if target is not a discord.py model'')))"

definition infer_guild :: "target \<Rightarrow> guild_arg \<Rightarrow> exn + int option" where
  "infer_guild tgt guild =
     (case guild of
        Guild g \<Rightarrow> Inr g
      | Unspecified \<Rightarrow>
          (case tgt of
             Role i g \<Rightarrow> Inr (Some g)
           | Member i g \<Rightarrow> Inr (Some g)
           | User i \<Rightarrow> Inl (ValueError ''Must specify guild_id if target is not a guilded object'')
           | Object i \<Rightarrow> Inl (ValueError ''Must specify guild_id if target is not a guilded object'')))"

definition add_perm ::
  "command \<Rightarrow> target \<Rightarrow> bool \<Rightarrow> guild_arg \<Rightarrow> ApplicationCommandPermissionType option
    \<Rightarrow> exn + command" where
  "add_perm self tgt perm guild ty =
     (case infer_type tgt ty of
        Inl e \<Rightarrow> Inl e
      | Inr t \<Rightarrow>
          (case infer_guild tgt guild of
             Inl e \<Rightarrow> Inl e
           | Inr g \<Rightarrow>
               Inr (set_permissions self
                      (AList.update g
                         (AList.update (target_id tgt, t) perm (dict_get (permissions self) g))
                         (permissions self)))))"

text \<open>
  \<^verbatim>\<open>Command.perms_dict\<close>, lines 226 to 236: the dictionary \<^verbatim>\<open>final\<close> of lines 228 and
  229, and the record that is returned. The values of the members of
  \<^verbatim>\<open>ApplicationCommandPermissionType\<close> (simples.py) are the parameter \<open>type_value\<close>.
\<close>

record permission_entry =
  pe_id :: int
  pe_type :: int
  pe_permission :: bool

record permissions_record =
  pd_id :: "int option"
  pd_permissions :: "permission_entry list"

definition merged_permissions ::
  "command \<Rightarrow> int option \<Rightarrow> ((int \<times> ApplicationCommandPermissionType) \<times> bool) list" where
  "merged_permissions self guild =
     dict_update (dict_get (permissions self) None) (dict_get (permissions self) guild)"

definition perms_dict ::
  "(ApplicationCommandPermissionType \<Rightarrow> int) \<Rightarrow> command \<Rightarrow> int option \<Rightarrow> permissions_record" where
  "perms_dict type_value self guild =
     \<lparr>pd_id = cmd_id self,
      pd_permissions =
        map (\<lambda>((oid, ty), perm). \<lparr>pe_id = oid, pe_type = type_value ty, pe_permission = perm\<rparr>)
          (merged_permissions self guild)\<rparr>"

section \<open>Component callbacks (ComponentCallback)\<close>

text \<open>A select menu, of which \<^verbatim>\<open>ComponentCallback.__init__\<close> reads the \<^verbatim>\<open>custom_id\<close>.\<close>

record SelectMenu =
  sm_custom_id :: string

datatype matcher_arg =
    MatcherFunc pyfunc
  | MatcherButton Button
  | MatcherSelectMenu SelectMenu
  | MatcherStr string

record ComponentCallback =
  cb_coro :: fn_ref
  cb_check :: fn_ref
  matcher :: fn_ref
  max_uses :: "int option"
  cb_cog :: "cog option"

text \<open>\<^verbatim>\<open>ComponentCallback.__init__\<close>, lines 457 to 475; \<^verbatim>\<open>cog\<close> is the class attribute.\<close>

definition ComponentCallback_init ::
  "nat \<Rightarrow> matcher_arg \<Rightarrow> pyfunc option \<Rightarrow> int option \<Rightarrow> ComponentCallback" where
  "ComponentCallback_init f m chk uses =
     \<lparr>cb_coro = UserFn f,
      cb_check = BaseCallback_init chk,
      matcher =
        (case m of
           MatcherFunc g \<Rightarrow> if f_is_coroutine g then UserFn (f_id g) else MatchSync (f_id g)
         | MatcherButton b \<Rightarrow> MatchComp (custom_id b)
         | MatcherSelectMenu sm \<Rightarrow> MatchComp (Some (sm_custom_id sm))
         | MatcherStr s \<Rightarrow> MatchId s),
      max_uses = uses,
      cb_cog = None\<rparr>"

text \<open>
  Callbacks are objects that the bot's set \<^verbatim>\<open>comp_callbacks\<close> refers to and that
  \<^verbatim>\<open>invoke\<close> changes in place: the state is a store of callback objects by address, the
  bot, and the log.
\<close>

record world =
  cb_objects :: "nat \<Rightarrow> ComponentCallback"
  w_bot :: SlashBot
  w_log :: "event list"

text \<open>
  When two callback objects are one element of the set \<^verbatim>\<open>bot.comp_callbacks\<close>. The set
  compares its elements by \<^verbatim>\<open>__hash__\<close>, the hash of the pair of the handler and the
  matcher (line 478), and by \<^verbatim>\<open>==\<close>, which \<^verbatim>\<open>discord.Object\<close> decides by the
  \<^verbatim>\<open>id\<close>, 0 for every callback (line 452). So an object is the same element as itself and
  as any object with the same handler and the same matcher function. The matchers
  \<^verbatim>\<open>match_comp\<close>, \<^verbatim>\<open>match_id\<close> and \<^verbatim>\<open>match\<close> are closures that each call of
  \<^verbatim>\<open>__init__\<close> makes anew; only a coroutine function given as the matcher is shared by
  two callbacks. Hashes of different functions are taken to differ.
\<close>

definition shared_matcher :: "fn_ref \<Rightarrow> fn_ref \<Rightarrow> bool" where
  "shared_matcher f g = (case (f, g) of (UserFn m, UserFn n) \<Rightarrow> m = n | _ \<Rightarrow> False)"

definition same_element :: "world \<Rightarrow> nat \<Rightarrow> nat \<Rightarrow> bool" where
  "same_element w a b =
     (a = b
      \<or> (cb_coro (cb_objects w a) = cb_coro (cb_objects w b)
          \<and> shared_matcher (matcher (cb_objects w a)) (matcher (cb_objects w b))))"

text \<open>
  \<^verbatim>\<open>ComponentCallback.deregister\<close>, lines 497 to 500: \<^verbatim>\<open>discard(self)\<close> takes out of
  the set the element that is the same element as \<^verbatim>\<open>self\<close>, if there is one.
\<close>

definition deregister :: "nat \<Rightarrow> world \<Rightarrow> world" where
  "deregister self w =
     w\<lparr>w_bot := (w_bot w)\<lparr>comp_callbacks :=
                   Set.filter (\<lambda>a. \<not> same_element w a self) (comp_callbacks (w_bot w))\<rparr>,
       w_log := w_log w @ [Dispatched ''component_callback_deregister'' self]\<rparr>"

text \<open>Lines 488 to 491 of \<^verbatim>\<open>ComponentCallback.invoke\<close>.\<close>

definition use_up :: "nat \<Rightarrow> world \<Rightarrow> world" where
  "use_up self w =
     (case max_uses (cb_objects w self) of
        None \<Rightarrow> w
      | Some n \<Rightarrow>
          let w1 = w\<lparr>cb_objects := (cb_objects w)(self := (cb_objects w self)\<lparr>max_uses := Some (n - 1)\<rparr>)\<rparr>
          in if n - 1 \<le> 0 then deregister self w1 else w1)"

text \<open>The call of the handler, lines 492 to 495.\<close>

definition handler_call :: "ComponentCallback \<Rightarrow> Context \<Rightarrow> event" where
  "handler_call cb ctx =
     (case cb_cog cb of
        Some c \<Rightarrow> Called (Plain (cb_coro cb))
                    (ArgCog (cog_id c) # ArgCtx ctx # map ArgVal (ctx_values ctx)) []
      | None \<Rightarrow> Called (Plain (cb_coro cb)) (ArgCtx ctx # map ArgVal (ctx_values ctx)) [])"

text \<open>
  \<^verbatim>\<open>ComponentCallback.invoke\<close>, lines 480 to 495, on the callback at address \<open>self\<close>.
  \<open>rp\<close> is \<^verbatim>\<open>repr\<close> of a callback object, which discord.py defines.
\<close>

definition cb_invoke ::
  "impl \<Rightarrow> (nat \<Rightarrow> string) \<Rightarrow> nat \<Rightarrow> Context \<Rightarrow> world \<Rightarrow> (exn + unit) \<times> world" where
  "cb_invoke impl rp self ctx w =
     (let chk = Plain (cb_check (cb_objects w self));
          w1 = w\<lparr>w_log := w_log w @ [Called chk [ArgCtx ctx] []]\<rparr>
      in case call impl chk [ArgCtx ctx] [] of
           Raises e \<Rightarrow> (Inl e, w1)
         | Returns v \<Rightarrow>
             if is_False v then
               (Inl (CheckFailure (''The check function for '' @ rp self @ '' failed.'')), w1)
             else
               (let w2 = use_up self w1;
                    ev = handler_call (cb_objects w2 self) ctx;
                    w3 = w2\<lparr>w_log := w_log w2 @ [ev]\<rparr>
                in case happen impl ev of
                     Raises e \<Rightarrow> (Inl e, w3)
                   | Returns u \<Rightarrow> (Inr (), w3)))"


section \<open>Notions used to state the properties of the resolution engine\<close>

text \<open>The ancestors of a command, nearest parent first, root last.\<close>

fun ancestors :: "command \<Rightarrow> command list" where
  "ancestors (Command i n d g None dp pm ca os cg ch co) = []"
| "ancestors (Command i n d g (Some p) dp pm ca os cg ch co) = p # ancestors p"

text \<open>An ancestor's own check and own handler, bound to its cog if it has one.\<close>

definition own_check :: "command \<Rightarrow> callable" where
  "own_check p = (case cog p of Some c \<Rightarrow> Partial (check p) (cog_id c) | None \<Rightarrow> Plain (check p))"


text \<open>The blanket check of a command's cog, if the command has a cog and the cog has one.\<close>

definition cog_method :: "command \<Rightarrow> callable option" where
  "cog_method p =
     (case cog p of
        Some c \<Rightarrow> (case cog_check c of Some m \<Rightarrow> Some (Method (cog_id c) m) | None \<Rightarrow> None)
      | None \<Rightarrow> None)"

text \<open>
  A check passes on a context when it returns, and returns anything but \<^verbatim>\<open>False\<close>;
  a callable returns when it does not raise.
\<close>

definition passes :: "impl \<Rightarrow> Context \<Rightarrow> callable \<Rightarrow> bool" where
  "passes impl ctx c =
     (case call impl c [ArgCtx ctx] [] of Returns v \<Rightarrow> v \<noteq> PyBool False | Raises e \<Rightarrow> False)"


text \<open>The log entry of a call with the context as its only argument.\<close>

definition ctx_call :: "Context \<Rightarrow> callable \<Rightarrow> event" where
  "ctx_call ctx c = Called c [ArgCtx ctx] []"

text \<open>
  The first of several checks that does not pass is one that returns \<^verbatim>\<open>False\<close>:
  \<open>cs\<close> is \<open>pre\<close>, all passing, then \<open>c\<close>, which returns \<^verbatim>\<open>False\<close>, then \<open>rest\<close>.
\<close>

definition denied_at ::
  "impl \<Rightarrow> Context \<Rightarrow> callable list \<Rightarrow> callable list \<Rightarrow> callable \<Rightarrow> callable list \<Rightarrow> bool" where
  "denied_at impl ctx cs pre c rest =
     (cs = pre @ c # rest \<and> list_all (passes impl ctx) pre
      \<and> call impl c [ArgCtx ctx] [] = Returns (PyBool False))"

text \<open>Adding to a list what it does not hold yet, and the first occurrences of a list.\<close>

definition add_once :: "'a \<Rightarrow> 'a list \<Rightarrow> 'a list" where
  "add_once m acc = (if m \<notin> set acc then acc @ [m] else acc)"

definition first_occs :: "'a list \<Rightarrow> 'a list" where
  "first_occs ms = rev (remdups (rev ms))"

text \<open>A command, if any, followed by its ancestors.\<close>

fun chain :: "command option \<Rightarrow> command list" where
  "chain None = []"
| "chain (Some p) = p # ancestors p"

section \<open>An example bot\<close>

text \<open>
  Two global checks (functions 1 and 2), a cog whose blanket check is function 3, the
  group \<^verbatim>\<open>say\<close> of that cog with the check 4 and the handler 6, its subgroup \<^verbatim>\<open>to\<close>
  with the default check and the handler 7, and the command \<^verbatim>\<open>say to repeat\<close> with the
  check 5 and the handler 8. Check 5 returns \<^verbatim>\<open>False\<close> when the interaction has no
  options; the other checks return \<^verbatim>\<open>None\<close>, \<^verbatim>\<open>0\<close>, \<^verbatim>\<open>True\<close> and the empty
  string. A second cog has the blanket check 9, which always returns \<^verbatim>\<open>False\<close>; the
  top-level command \<^verbatim>\<open>stop\<close> and the group \<^verbatim>\<open>admin\<close> with its command \<^verbatim>\<open>ban\<close>
  belong to it.
\<close>

definition ex_impl :: impl where
  "ex_impl n args kw =
     (if n = 1 then Returns PyNone
      else if n = 2 then Returns (PyInt 0)
      else if n = 3 then Returns (PyBool True)
      else if n = 4 then Returns (PyStr [])
      else if n = 5 then
        (case args of
           [ArgCtx ctx] \<Rightarrow> if ctx_options ctx = [] then Returns (PyBool False) else Returns PyNone
         | _ \<Rightarrow> Raises (Raised ''TypeError''))
      else if n = 6 \<or> n = 7 \<or> n = 8 then Returns PyNone
      else if n = 9 then Returns (PyBool False)
      else Raises (Raised ''NameError''))"

definition ex_cog :: cog where
  "ex_cog = \<lparr>cog_id = 70, cog_check = Some (UserFn 3)\<rparr>"

definition ex_cls :: cls where
  "ex_cls = \<lparr>cls_name = ''Context'', sub_Context = True, sub_ChoiceEnum = False\<rparr>"

definition say_group :: command where
  "say_group = Command None ''say'' ''Send a message in the name of the bot.'' None None True []
     (Some (''ctx'', ex_cls)) [] (Some ex_cog) (UserFn 4) (UserFn 6)"

definition to_group :: command where
  "to_group = Command None ''to'' ''Send it somewhere.'' None (Some say_group) True []
     (Some (''ctx'', ex_cls)) [] None DefaultCheck (UserFn 7)"

definition repeat_cmd :: command where
  "repeat_cmd = Command None ''repeat'' ''Make the bot repeat your message.'' None
     (Some to_group) True [] (Some (''ctx'', ex_cls)) [] None (UserFn 5) (UserFn 8)"

definition ex_bot :: SlashBot where
  "ex_bot = \<lparr>bot_checks = [Plain (UserFn 1), Plain (UserFn 2)], comp_callbacks = {}\<rparr>"

definition ctx_hi :: Context where
  "ctx_hi = \<lparr>ctx_options = [(''message'', PyStr ''hi'')], ctx_custom_id = [], ctx_values = []\<rparr>"

definition ctx_bare :: Context where
  "ctx_bare = \<lparr>ctx_options = [], ctx_custom_id = [], ctx_values = []\<rparr>"


definition guarded_cog :: cog where
  "guarded_cog = \<lparr>cog_id = 71, cog_check = Some (UserFn 9)\<rparr>"

definition stop_cmd :: command where
  "stop_cmd = Command None ''stop'' ''Stop the bot.'' None None True []
     (Some (''ctx'', ex_cls)) [] (Some guarded_cog) DefaultCheck (UserFn 8)"

definition admin_group :: command where
  "admin_group = Command None ''admin'' ''Administration.'' None None True []
     (Some (''ctx'', ex_cls)) [] (Some guarded_cog) (UserFn 4) (UserFn 6)"

definition ban_cmd :: command where
  "ban_cmd = Command None ''ban'' ''Ban a member.'' None (Some admin_group) True []
     (Some (''ctx'', ex_cls)) [] (Some guarded_cog) DefaultCheck (UserFn 8)"

text \<open>
  Handlers: \<^verbatim>\<open>hello(ctx: Context, other: Context)\<close>;
  \<^verbatim>\<open>repeat(ctx: Context, message: msg_opt = ...)\<close>, where \<^verbatim>\<open>msg_opt\<close> is the
  \<^verbatim>\<open>Option\<close> object at address 0 with \<^verbatim>\<open>required=True\<close>; the methods
  \<^verbatim>\<open>kick(self, ctx: Context, member)\<close> and \<^verbatim>\<open>ping(self, ctx: Context)\<close>.
\<close>

definition no_kwargs :: cmd_kwargs where
  "no_kwargs = \<lparr>kw_check = None, kw_name = None, kw_description = None, kw_guild_id = None,
     kw_guild = None, kw_parent = None, kw_default_permission = None\<rparr>"

definition no_globals :: "string \<Rightarrow> annotation option" where
  "no_globals s = None"

definition ex_choice_option :: "cls \<Rightarrow> Option" where
  "ex_choice_option c = \<lparr>opt_name = None, opt_description = cls_name c, opt_type = 3,
     opt_required = False, opt_choices = []\<rparr>"

definition msg_opt :: Option where
  "msg_opt = \<lparr>opt_name = None, opt_description = ''Message to send'', opt_type = 3,
     opt_required = True, opt_choices = []\<rparr>"

definition ctx_p :: param where
  "ctx_p = \<lparr>p_name = ''ctx'', p_annotation = AClass ex_cls, p_has_default = False\<rparr>"

definition two_ctx_handler :: handler where
  "two_ctx_handler = \<lparr>h_fn = 20, h_name = ''hello'', h_doc = Some ''Hello World!'',
     h_params = [ctx_p, \<lparr>p_name = ''other'', p_annotation = AClass ex_cls, p_has_default = False\<rparr>],
     h_eval = no_globals\<rparr>"

definition repeat_default_p :: param where
  "repeat_default_p = \<lparr>p_name = ''message'', p_annotation = AOption 0, p_has_default = True\<rparr>"

definition repeat_default_handler :: handler where
  "repeat_default_handler = \<lparr>h_fn = 21, h_name = ''repeat'',
     h_doc = Some ''Make the bot repeat your message.'',
     h_params = [ctx_p, repeat_default_p], h_eval = no_globals\<rparr>"

definition method_handler :: handler where
  "method_handler = \<lparr>h_fn = 22, h_name = ''kick'', h_doc = Some ''Kick a member.'',
     h_params = [\<lparr>p_name = ''self'', p_annotation = AEmpty, p_has_default = False\<rparr>, ctx_p,
                 \<lparr>p_name = ''member'', p_annotation = AEmpty, p_has_default = False\<rparr>],
     h_eval = no_globals\<rparr>"

definition ping_handler :: handler where
  "ping_handler = \<lparr>h_fn = 23, h_name = ''ping'', h_doc = Some ''Pong.'',
     h_params = [\<lparr>p_name = ''self'', p_annotation = AEmpty, p_has_default = False\<rparr>, ctx_p],
     h_eval = no_globals\<rparr>"

text \<open>
  The command \<^verbatim>\<open>stop\<close> after \<^verbatim>\<open>add_perm(Object(42), True, None, ROLE)\<close> and then after
  \<^verbatim>\<open>add_perm(Object(42), False, 1001, ROLE)\<close>; a single-use callback bound to the
  component id \<^verbatim>\<open>confirm\<close>, registered at address 0, and an event for that id.
\<close>

definition ex_type_value :: "ApplicationCommandPermissionType \<Rightarrow> int" where
  "ex_type_value t = (case t of ROLE \<Rightarrow> 1 | USER \<Rightarrow> 2)"

definition stop_global :: command where
  "stop_global = Command None ''stop'' ''Stop the bot.'' None None True
     [(None, [((42, ROLE), True)])]
     (Some (''ctx'', ex_cls)) [] (Some guarded_cog) DefaultCheck (UserFn 8)"

definition stop_scoped :: command where
  "stop_scoped = Command None ''stop'' ''Stop the bot.'' None None True
     [(None, [((42, ROLE), True)]), (Some 1001, [((42, ROLE), False)])]
     (Some (''ctx'', ex_cls)) [] (Some guarded_cog) DefaultCheck (UserFn 8)"

definition confirm_ctx :: Context where
  "confirm_ctx = \<lparr>ctx_options = [], ctx_custom_id = ''confirm'', ctx_values = [PyStr ''yes'']\<rparr>"


text \<open>
  Two callbacks with the same handler and the same coroutine function 40 as matcher, at
  the addresses 0 and 1, of which only the first is registered.
\<close>

definition twin_world :: world where
  "twin_world =
     \<lparr>cb_objects = (\<lambda>a. ComponentCallback_init 8
                      (MatcherFunc \<lparr>f_id = 40, f_is_coroutine = True\<rparr>) None (Some 1)),
      w_bot = \<lparr>bot_checks = [], comp_callbacks = {0}\<rparr>,
      w_log = []\<rparr>"

definition ex_repr :: "nat \<Rightarrow> string" where
  "ex_repr a = ''<Object id=0>''"

section \<open>Button construction\<close>

lemma falsy_simps: "falsy None" "falsy (Some s) = (s = [])"
  by (simp_all add: falsy_def)

text \<open>
  Claim C10, as the code has it: the construction of a button raises a \<^verbatim>\<open>TypeError\<close>
  exactly when the style is LINK and a custom id is supplied or the url is absent or empty,
  or the style is not LINK and the custom id is absent or empty or a url is supplied, or
  both label and emoji are absent; it succeeds otherwise.
\<close>

theorem Button_init_raises_iff:
  "(\<exists>msg. Button_init s l e c u d = Inl (TypeError msg))
     = ((s = LINK \<and> (falsy u \<or> c \<noteq> None))
        \<or> (s \<noteq> LINK \<and> (falsy c \<or> u \<noteq> None))
        \<or> (l = None \<and> e = None))
   \<and> (\<exists>b. Button_init s l e c u d = Inr b)
     = (\<not> ((s = LINK \<and> (falsy u \<or> c \<noteq> None))
        \<or> (s \<noteq> LINK \<and> (falsy c \<or> u \<noteq> None))
        \<or> (l = None \<and> e = None)))"
  by (auto simp: Button_init_def Button_build_def)

text \<open>
  The claim as it is written fails for an empty url: a LINK button with a label and the
  url \<^verbatim>\<open>''\<close> is refused, while none of the claim's conditions holds of it.
\<close>

theorem Button_init_empty_url_counterexample:
  "Button_init LINK (Some ''docs'') None None (Some '''') False
      = Inl (TypeError ''LINK-style Buttons must have a url'')
   \<and> \<not> claimed_Button_raises LINK (Some ''docs'') None None (Some '''')"
  by (simp add: Button_init_def Button_build_def claimed_Button_raises_def falsy_def)


section \<open>The resolution engine\<close>

lemma is_False_iff: "is_False v = (v = PyBool False)"
  by (cases v) auto

lemma run_checks_log:
  "snd (run_checks impl cs ctx log) =
     log @ map (ctx_call ctx) (takeWhile (passes impl ctx) cs @ take 1 (dropWhile (passes impl ctx) cs))"
  by (induction cs arbitrary: log)
     (auto simp: passes_def ctx_call_def is_False_iff split: outcome.splits)

lemma remdups_snoc: "remdups (xs @ [m]) = filter (\<lambda>x. x \<noteq> m) (remdups xs) @ [m]"
  by (induction xs) auto

lemma first_occs_Cons: "first_occs (m # ms) = m # filter (\<lambda>x. x \<noteq> m) (first_occs ms)"
  by (simp add: first_occs_def remdups_snoc rev_filter)

lemma fold_add_once:
  "fold add_once ms acc = acc @ filter (\<lambda>m. m \<notin> set acc) (first_occs ms)"
proof (induction ms arbitrary: acc)
  case Nil
  then show ?case by (simp add: first_occs_def)
next
  case (Cons m ms)
  show ?case
  proof (cases "m \<in> set acc")
    case True
    have "filter (\<lambda>x. x \<notin> set acc) (filter (\<lambda>x. x \<noteq> m) (first_occs ms))
        = filter (\<lambda>x. x \<notin> set acc) (first_occs ms)"
      using True by (auto simp: filter_filter intro: filter_cong)
    moreover have "add_once m acc = acc"
      using True by (simp add: add_once_def)
    ultimately show ?thesis
      using True by (simp add: Cons.IH first_occs_Cons)
  next
    case False
    have "filter (\<lambda>x. x \<notin> set (acc @ [m])) (first_occs ms)
        = filter (\<lambda>x. x \<notin> set acc) (filter (\<lambda>x. x \<noteq> m) (first_occs ms))"
      by (auto simp: filter_filter intro: filter_cong)
    moreover have "add_once m acc = acc @ [m]"
      using False by (simp add: add_once_def)
    ultimately show ?thesis
      using False by (simp add: Cons.IH first_occs_Cons)
  qed
qed

lemma ancestors_chain: "ancestors c = chain (parent c)"
  by (cases c; cases "parent c") auto

lemma collect_checks_eq:
  "collect_checks po parents cogs =
     (parents @ map own_check (chain po),
      fold add_once (List.map_filter cog_method (chain po)) cogs)"
proof (induction po parents cogs rule: collect_checks.induct)
  case (1 parents cogs)
  then show ?case by (simp add: map_filter_simps)
next
  case (2 i n d g pp dp pm ca os cg ch co parents cogs)
  then show ?case
    by (cases pp)
       (auto simp: own_check_def cog_method_def add_once_def map_filter_simps ancestors_chain
             split: option.splits)
qed


lemma checks_to_run_eq:
  "checks_to_run client self =
     rev (bot_checks client)
     @ remdups (rev (List.map_filter cog_method (ancestors self)))
     @ map own_check (rev (ancestors self))
     @ [Plain (check self)]"
  by (simp add: checks_to_run_def collect_checks_eq fold_add_once first_occs_def
        ancestors_chain rev_map)

lemma run_checks_denied:
  "list_all (passes impl ctx) pre \<Longrightarrow> call impl c [ArgCtx ctx] [] = Returns (PyBool False)
   \<Longrightarrow> run_checks impl (pre @ c # rest) ctx log = (Inr False, log @ map (ctx_call ctx) (pre @ [c]))"
  by (induction pre arbitrary: log)
     (auto simp: passes_def ctx_call_def is_False_iff split: outcome.splits)

lemma run_checks_False_decomp:
  "fst (run_checks impl cs ctx log) = Inr False
   \<Longrightarrow> \<exists>pre c rest. denied_at impl ctx cs pre c rest"
proof (induction cs arbitrary: log)
  case Nil
  then show ?case by simp
next
  case (Cons a cs)
  show ?case
  proof (cases "call impl a [ArgCtx ctx] []")
    case (Raises e)
    with Cons.prems show ?thesis by simp
  next
    case (Returns v)
    show ?thesis
    proof (cases "is_False v")
      case True
      with Returns have "denied_at impl ctx (a # cs) [] a cs"
        by (simp add: denied_at_def is_False_iff)
      then show ?thesis by blast
    next
      case False
      with Returns Cons.prems
      have "fst (run_checks impl cs ctx (log @ [Called a [ArgCtx ctx] []])) = Inr False"
        by simp
      from Cons.IH [OF this] obtain pre c rest where "denied_at impl ctx cs pre c rest"
        by blast
      with Returns False have "denied_at impl ctx (a # cs) (a # pre) c rest"
        by (simp add: denied_at_def passes_def is_False_iff)
      then show ?thesis by blast
    qed
  qed
qed




lemmas ex_defs = ex_impl_def ex_cog_def say_group_def to_group_def repeat_cmd_def ex_bot_def
  ctx_hi_def ctx_bare_def guarded_cog_def stop_cmd_def

lemma ex_checks:
  "checks_to_run ex_bot repeat_cmd =
     [Plain (UserFn 2), Plain (UserFn 1), Method 70 (UserFn 3), Partial (UserFn 4) 70,
      Plain DefaultCheck, Plain (UserFn 5)]"
  by (simp add: checks_to_run_def ex_defs)

text \<open>
  Claim C1: the checks of an invoked command are collected, and evaluated, in this order:
  the bot's global checks (the last registered first), then the blanket checks of the
  cogs of the ancestors, each once, then the ancestors' own checks from the root down to
  the parent, and the command's own check last. The checks actually called are this list
  up to and including the first that does not pass.
\<close>

theorem can_run_order:
  "checks_to_run client self =
     rev (bot_checks client)
     @ remdups (rev (List.map_filter cog_method (ancestors self)))
     @ map own_check (rev (ancestors self))
     @ [Plain (check self)]
   \<and> snd (can_run impl client self ctx log) =
       log @ map (ctx_call ctx)
         (takeWhile (passes impl ctx) (checks_to_run client self)
          @ take 1 (dropWhile (passes impl ctx) (checks_to_run client self)))"
  using checks_to_run_eq [of client self]
  by (simp only: can_run_def run_checks_log simp_thms)

theorem can_run_order_witness:
  "checks_to_run ex_bot repeat_cmd =
     [Plain (UserFn 2), Plain (UserFn 1), Method 70 (UserFn 3), Partial (UserFn 4) 70,
      Plain DefaultCheck, Plain (UserFn 5)]
   \<and> snd (can_run ex_impl ex_bot repeat_cmd ctx_hi []) =
      map (ctx_call ctx_hi)
        [Plain (UserFn 2), Plain (UserFn 1), Method 70 (UserFn 3), Partial (UserFn 4) 70,
         Plain DefaultCheck, Plain (UserFn 5)]"
  using can_run_order [of ex_bot repeat_cmd ex_impl ctx_hi "[]"]
  by (simp add: ex_checks passes_def) (simp add: ex_defs cog_method_def own_check_def map_filter_simps)


text \<open>
  Claim C2: \<^verbatim>\<open>can_run\<close> answers \<^verbatim>\<open>False\<close> exactly when some check returns the value
  \<^verbatim>\<open>False\<close> after all the checks before it have returned something else (\<^verbatim>\<open>None\<close>,
  \<^verbatim>\<open>0\<close>, an empty string, ...); then \<^verbatim>\<open>invoke\<close> raises \<^verbatim>\<open>CheckFailure\<close> with the
  qualified name of the command in its message, and the calls it has made are the checks
  up to that one and nothing else: no later check, no handler of an ancestor, not the
  command's own handler.
\<close>

theorem invoke_check_failure:
  "(fst (can_run impl client self ctx log) = Inr False)
     = (\<exists>pre c rest. denied_at impl ctx (checks_to_run client self) pre c rest)
   \<and> (\<forall>pre c rest. denied_at impl ctx (checks_to_run client self) pre c rest \<longrightarrow>
        invoke impl client self ctx log =
          (Inl (CheckFailure (''The check functions for '' @ qualname self @ '' failed.'')),
           log @ map (ctx_call ctx) (pre @ [c])))"
proof (intro conjI allI impI)
  show "(fst (can_run impl client self ctx log) = Inr False)
     = (\<exists>pre c rest. denied_at impl ctx (checks_to_run client self) pre c rest)"
  proof
    assume "fst (can_run impl client self ctx log) = Inr False"
    then show "\<exists>pre c rest. denied_at impl ctx (checks_to_run client self) pre c rest"
      unfolding can_run_def by (rule run_checks_False_decomp)
  next
    assume "\<exists>pre c rest. denied_at impl ctx (checks_to_run client self) pre c rest"
    then obtain pre c rest where d: "denied_at impl ctx (checks_to_run client self) pre c rest"
      by blast
    then show "fst (can_run impl client self ctx log) = Inr False"
      by (simp add: can_run_def denied_at_def run_checks_denied)
  qed
next
  fix pre c rest
  assume d: "denied_at impl ctx (checks_to_run client self) pre c rest"
  then have "can_run impl client self ctx log = (Inr False, log @ map (ctx_call ctx) (pre @ [c]))"
    by (simp add: can_run_def denied_at_def run_checks_denied)
  then show "invoke impl client self ctx log =
          (Inl (CheckFailure (''The check functions for '' @ qualname self @ '' failed.'')),
           log @ map (ctx_call ctx) (pre @ [c]))"
    by (simp add: invoke_def)
qed

theorem invoke_check_failure_witness:
  "denied_at ex_impl ctx_bare (checks_to_run ex_bot repeat_cmd)
     [Plain (UserFn 2), Plain (UserFn 1), Method 70 (UserFn 3), Partial (UserFn 4) 70,
      Plain DefaultCheck] (Plain (UserFn 5)) []
   \<and> invoke ex_impl ex_bot repeat_cmd ctx_bare [] =
      (Inl (CheckFailure ''The check functions for say to repeat failed.''),
       map (ctx_call ctx_bare)
         [Plain (UserFn 2), Plain (UserFn 1), Method 70 (UserFn 3), Partial (UserFn 4) 70,
          Plain DefaultCheck, Plain (UserFn 5)])"
proof -
  have d: "denied_at ex_impl ctx_bare (checks_to_run ex_bot repeat_cmd)
     [Plain (UserFn 2), Plain (UserFn 1), Method 70 (UserFn 3), Partial (UserFn 4) 70,
      Plain DefaultCheck] (Plain (UserFn 5)) []"
    by (simp add: denied_at_def ex_checks passes_def) (simp add: ex_defs)
  have q: "qualname repeat_cmd = ''say to repeat''"
    by (simp add: ex_defs)
  from invoke_check_failure [of ex_impl ex_bot repeat_cmd ctx_bare "[]"] d
  have "invoke ex_impl ex_bot repeat_cmd ctx_bare [] =
      (Inl (CheckFailure (''The check functions for '' @ qualname repeat_cmd @ '' failed.'')),
       [] @ map (ctx_call ctx_bare)
         ([Plain (UserFn 2), Plain (UserFn 1), Method 70 (UserFn 3), Partial (UserFn 4) 70,
          Plain DefaultCheck] @ [Plain (UserFn 5)]))"
    by blast
  with d q show ?thesis by simp
qed







text \<open>
  Claim C4 says that the blanket check of the cog that owns a command is evaluated on
  every invocation of it. \<^verbatim>\<open>can_run\<close> starts its walk at the parent, so for the
  top-level command \<^verbatim>\<open>stop\<close> the blanket check of its cog, which returns \<^verbatim>\<open>False\<close>, is
  never called and the handler runs; for the command \<^verbatim>\<open>admin ban\<close>, whose parent is in
  the same cog, the blanket check is called and denies.
\<close>

theorem cog_check_not_run_for_top_level_command:
  "cog stop_cmd = Some guarded_cog
   \<and> cog_check guarded_cog = Some (UserFn 9)
   \<and> call ex_impl (Method 71 (UserFn 9)) [ArgCtx ctx_bare] [] = Returns (PyBool False)
   \<and> invoke ex_impl \<lparr>bot_checks = [], comp_callbacks = {}\<rparr> stop_cmd ctx_bare [] =
       (Inr (), [Called (Plain DefaultCheck) [ArgCtx ctx_bare] [],
                 Called (Plain (UserFn 8)) [ArgCog 71] []])
   \<and> invoke ex_impl \<lparr>bot_checks = [], comp_callbacks = {}\<rparr> ban_cmd ctx_bare [] =
       (Inl (CheckFailure ''The check functions for admin ban failed.''),
        [Called (Method 71 (UserFn 9)) [ArgCtx ctx_bare] []])"
  by (simp add: invoke_def can_run_def checks_to_run_def invoke_parents_def leaf_call_def
        happen_def ex_defs admin_group_def ban_cmd_def)


section \<open>Construction of a command\<close>

lemma inspect_param_TypeError:
  "inspect_param co ev nm p st = Inl e \<Longrightarrow>
     e = TypeError (''Command '' @ repr nm @ '' cannot have a required argument with no valid annotation'')
     \<and> found_self_arg st \<and> unannotated_required ev p"
  by (auto simp: inspect_param_def unannotated_required_def Let_def split: if_splits)

lemma found_self_store_option [simp]: "found_self_arg (store_option p a st) = found_self_arg st"
  by (simp add: store_option_def clone_def Let_def)

lemma ctx_arg_store_option [simp]: "st_ctx_arg (store_option p a st) = st_ctx_arg st"
  by (simp add: store_option_def clone_def Let_def)

lemma found_self_classify [simp]: "found_self_arg (classify co p typ st) = found_self_arg st"
  by (simp add: classify_def split: annotation.splits)

lemma inspect_param_found_self:
  "inspect_param co ev nm p st = Inr st' \<Longrightarrow>
     found_self_arg st' = (found_self_arg st \<or> unannotated_required ev p)"
  by (auto simp: inspect_param_def unannotated_required_def Let_def split: if_splits)

lemma inspect_param_fails_iff:
  "(\<exists>e. inspect_param co ev nm p st = Inl e) = (found_self_arg st \<and> unannotated_required ev p)"
  by (auto simp: inspect_param_def unannotated_required_def Let_def)

lemma inspect_params_fails_iff:
  "(\<exists>e. inspect_params co ev nm ps st = Inl e)
     = (2 \<le> (if found_self_arg st then 1 else 0) + length (filter (unannotated_required ev) ps))"
proof (induction ps arbitrary: st)
  case Nil
  then show ?case by simp
next
  case (Cons p ps)
  show ?case
  proof (cases "inspect_param co ev nm p st")
    case (Inl e)
    then have "found_self_arg st \<and> unannotated_required ev p"
      using inspect_param_fails_iff [of co ev nm p st] by blast
    with Inl show ?thesis by simp
  next
    case (Inr st')
    then have n: "\<not> (found_self_arg st \<and> unannotated_required ev p)"
      using inspect_param_fails_iff [of co ev nm p st] by auto
    from Inr have f: "found_self_arg st' = (found_self_arg st \<or> unannotated_required ev p)"
      by (rule inspect_param_found_self)
    from Inr have "(\<exists>e. inspect_params co ev nm (p # ps) st = Inl e)
        = (\<exists>e. inspect_params co ev nm ps st' = Inl e)"
      by simp
    also have "\<dots> = (2 \<le> (if found_self_arg st' then 1 else 0)
                        + length (filter (unannotated_required ev) ps))"
      by (rule Cons.IH)
    finally show ?thesis using n f by auto
  qed
qed

lemma inspect_params_error:
  "inspect_params co ev nm ps st = Inl e \<Longrightarrow>
     e = TypeError (''Command '' @ repr nm @ '' cannot have a required argument with no valid annotation'')"
proof (induction ps arbitrary: st)
  case Nil
  then show ?case by simp
next
  case (Cons p ps)
  then show ?case
    by (auto split: sum.splits dest: inspect_param_TypeError)
qed


lemma ctx_arg_classify:
  "st_ctx_arg (classify co p (resolve ev (p_annotation p)) st)
     = (case ctx_param ev p of Some ca \<Rightarrow> Some ca | None \<Rightarrow> st_ctx_arg st)"
  by (simp add: classify_def ctx_param_def split: annotation.splits)

lemma ctx_param_unannotated: "unannotated_required ev p \<Longrightarrow> ctx_param ev p = None"
  by (auto simp: unannotated_required_def ctx_param_def valid_annotation_def split: annotation.splits)

lemma inspect_param_ctx_arg:
  "inspect_param co ev nm p st = Inr st' \<Longrightarrow>
     st_ctx_arg st' = (case ctx_param ev p of Some ca \<Rightarrow> Some ca | None \<Rightarrow> st_ctx_arg st)"
  by (auto simp: inspect_param_def Let_def ctx_arg_classify ctx_param_unannotated
        unannotated_required_def split: if_splits)

lemma inspect_params_ctx_arg:
  "inspect_params co ev nm ps st = Inr st' \<Longrightarrow>
     st_ctx_arg st' = (if List.map_filter (ctx_param ev) ps = [] then st_ctx_arg st
                       else Some (last (List.map_filter (ctx_param ev) ps)))"
proof (induction ps arbitrary: st)
  case Nil
  then show ?case by (simp add: map_filter_simps)
next
  case (Cons p ps)
  from Cons.prems obtain st1 where
    s: "inspect_param co ev nm p st = Inr st1" and r: "inspect_params co ev nm ps st1 = Inr st'"
    by (auto split: sum.splits)
  from Cons.IH [OF r] inspect_param_ctx_arg [OF s] show ?case
    by (auto simp: map_filter_simps split: option.splits)
qed

lemma store_option_eq:
  "store_option p a st =
     st\<lparr>st_options := AList.update (p_name p) (length (st_heap st)) (st_options st),
        st_heap := st_heap st @ [stored_option p (st_heap st ! a)]\<rparr>"
  by (cases "opt_name (st_heap st ! a)")
     (simp_all add: store_option_def clone_def stored_option_def Let_def)

lemma classify_heap_grows: "\<exists>ext. st_heap (classify co p typ st) = st_heap st @ ext"
  by (simp add: classify_def store_option_eq split: annotation.splits)

lemma inspect_param_heap_grows:
  "inspect_param co ev nm p st = Inr st' \<Longrightarrow> \<exists>ext. st_heap st' = st_heap st @ ext"
  using classify_heap_grows [of co p _ st]
  by (auto simp: inspect_param_def Let_def split: if_splits)

lemma inspect_params_heap_grows:
  "inspect_params co ev nm ps st = Inr st' \<Longrightarrow> \<exists>ext. st_heap st' = st_heap st @ ext"
proof (induction ps arbitrary: st)
  case Nil
  then show ?case by simp
next
  case (Cons p ps)
  from Cons.prems obtain st1 where
    s: "inspect_param co ev nm p st = Inr st1" and r: "inspect_params co ev nm ps st1 = Inr st'"
    by (auto split: sum.splits)
  from inspect_param_heap_grows [OF s] Cons.IH [OF r] show ?case by auto
qed

lemma classify_options_other:
  "n \<noteq> p_name p \<Longrightarrow> map_of (st_options (classify co p typ st)) n = map_of (st_options st) n"
  by (simp add: classify_def store_option_eq update_conv' split: annotation.splits)

lemma inspect_param_options_other:
  "inspect_param co ev nm p st = Inr st' \<Longrightarrow> n \<noteq> p_name p
   \<Longrightarrow> map_of (st_options st') n = map_of (st_options st) n"
  by (auto simp: inspect_param_def Let_def classify_options_other split: if_splits)

lemma inspect_params_options_other:
  "inspect_params co ev nm ps st = Inr st' \<Longrightarrow> n \<notin> p_name ` set ps
   \<Longrightarrow> map_of (st_options st') n = map_of (st_options st) n"
proof (induction ps arbitrary: st)
  case Nil
  then show ?case by simp
next
  case (Cons p ps)
  from Cons.prems obtain st1 where
    s: "inspect_param co ev nm p st = Inr st1" and r: "inspect_params co ev nm ps st1 = Inr st'"
    by (auto split: sum.splits)
  from Cons.prems have "n \<noteq> p_name p" "n \<notin> p_name ` set ps" by auto
  with Cons.IH [OF r] inspect_param_options_other [OF s] show ?case by simp
qed

lemma inspect_param_stores:
  assumes "inspect_param co ev nm p st = Inr st'"
      and "resolve ev (p_annotation p) = AOption a"
  shows "map_of (st_options st') (p_name p) = Some (length (st_heap st))
         \<and> st_heap st' = st_heap st @ [stored_option p (st_heap st ! a)]"
  using assms
  by (auto simp: inspect_param_def Let_def classify_def store_option_eq update_conv'
        valid_annotation_def split: if_splits)

lemma inspect_params_stores:
  assumes "inspect_params co ev nm ps st = Inr st'"
      and "distinct (map p_name ps)"
      and "p \<in> set ps"
      and "resolve ev (p_annotation p) = AOption a"
      and "a < length (st_heap st)"
  shows "\<exists>t. map_of (st_options st') (p_name p) = Some t
           \<and> length (st_heap st) \<le> t \<and> t < length (st_heap st')
           \<and> st_heap st' ! t = stored_option p (st_heap st ! a)"
  using assms
proof (induction ps arbitrary: st)
  case Nil
  then show ?case by simp
next
  case (Cons q ps)
  from Cons.prems(1) obtain st1 where
    s: "inspect_param co ev nm q st = Inr st1" and r: "inspect_params co ev nm ps st1 = Inr st'"
    by (auto split: sum.splits)
  from inspect_param_heap_grows [OF s] obtain e1 where h1: "st_heap st1 = st_heap st @ e1"
    by blast
  from inspect_params_heap_grows [OF r] obtain e2 where h2: "st_heap st' = st_heap st1 @ e2"
    by blast
  show ?case
  proof (cases "p = q")
    case True
    from inspect_param_stores [OF s] True Cons.prems(4)
    have o: "map_of (st_options st1) (p_name p) = Some (length (st_heap st))"
      and h: "st_heap st1 = st_heap st @ [stored_option p (st_heap st ! a)]"
      by auto
    from Cons.prems(2) True have "p_name p \<notin> p_name ` set ps" by auto
    from inspect_params_options_other [OF r this] o
    have "map_of (st_options st') (p_name p) = Some (length (st_heap st))" by simp
    moreover from h h2 have "st_heap st' ! length (st_heap st) = stored_option p (st_heap st ! a)"
      by (simp add: nth_append)
    moreover from h h2 have "length (st_heap st) < length (st_heap st')" by simp
    ultimately show ?thesis by auto
  next
    case False
    with Cons.prems have "p \<in> set ps" "distinct (map p_name ps)" by auto
    moreover from h1 Cons.prems(5) have "a < length (st_heap st1)" by simp
    ultimately obtain t where t: "map_of (st_options st') (p_name p) = Some t"
      "length (st_heap st1) \<le> t" "t < length (st_heap st')"
      "st_heap st' ! t = stored_option p (st_heap st1 ! a)"
      using Cons.IH [OF r _ _ Cons.prems(4)] by blast
    from h1 Cons.prems(5) have "st_heap st1 ! a = st_heap st ! a"
      by (simp add: nth_append)
    with t h1 show ?thesis by auto
  qed
qed

lemmas init_ex_defs = no_kwargs_def no_globals_def ex_choice_option_def msg_opt_def ctx_p_def
  two_ctx_handler_def repeat_default_p_def repeat_default_handler_def method_handler_def ex_cls_def

lemmas init_defs = Command_init_def init_description_def init_name_def inspect_param_def
  classify_def store_option_def clone_def resolve_def valid_annotation_def BaseCallback_init_def
  Let_def

text \<open>
  Claim C5 says that construction fails when more than one parameter is annotated with
  \<^verbatim>\<open>Context\<close> or a subclass. It does not: \<^verbatim>\<open>hello(ctx: Context, other: Context)\<close>
  makes a command, whose context parameter is the second one.
\<close>

theorem Command_init_two_Context_counterexample:
  "List.map_filter (ctx_param (h_eval two_ctx_handler)) (h_params two_ctx_handler)
     = [(''ctx'', ex_cls), (''other'', ex_cls)]
   \<and> Command_init ex_choice_option two_ctx_handler no_kwargs [] =
       Inr (Command None ''hello'' ''Hello World!'' None None True [] (Some (''other'', ex_cls)) []
              None DefaultCheck (UserFn 20), [])"
  by (simp add: init_defs init_ex_defs ctx_param_def map_filter_simps)

text \<open>
  Claim C5, as the code has it: the number of parameters annotated with \<^verbatim>\<open>Context\<close>
  or a subclass never makes construction fail, unless it is zero. Construction fails exactly
  when the description is missing or empty, or at least two parameters are required and
  have no valid annotation, or no parameter is annotated with \<^verbatim>\<open>Context\<close> or a
  subclass; when it succeeds, exactly one parameter is bound as the context parameter: the
  last one so annotated, however many there are.
\<close>

theorem Command_init_binds_last_Context:
  "(\<exists>e. Command_init co f kw heap = Inl e)
     = (falsy (init_description f kw)
        \<or> 2 \<le> length (filter (unannotated_required (h_eval f)) (h_params f))
        \<or> List.map_filter (ctx_param (h_eval f)) (h_params f) = [])
   \<and> (\<forall>cmd heap'. Command_init co f kw heap = Inr (cmd, heap') \<longrightarrow>
        ctx_arg cmd = Some (last (List.map_filter (ctx_param (h_eval f)) (h_params f))))"
proof -
  define loop where "loop = inspect_params co (h_eval f) (init_name f kw) (h_params f)
     \<lparr>found_self_arg = False, st_ctx_arg = None, st_options = [], st_heap = heap\<rparr>"
  define n where "n = length (filter (unannotated_required (h_eval f)) (h_params f))"
  define cs where "cs = List.map_filter (ctx_param (h_eval f)) (h_params f)"
  have l: "(\<exists>e. loop = Inl e) = (2 \<le> n)"
    by (simp add: loop_def n_def inspect_params_fails_iff)
  have a: "loop = Inr st \<Longrightarrow> st_ctx_arg st = (if cs = [] then None else Some (last cs))" for st
    unfolding loop_def cs_def by (drule inspect_params_ctx_arg) simp
  have goal: "(\<exists>e. Command_init co f kw heap = Inl e)
       = (falsy (init_description f kw) \<or> 2 \<le> n \<or> cs = [])
     \<and> (\<forall>cmd heap'. Command_init co f kw heap = Inr (cmd, heap') \<longrightarrow>
          ctx_arg cmd = Some (last cs))"
  proof (cases "falsy (init_description f kw)")
    case True
    then show ?thesis
      by (auto simp: Command_init_def falsy_def split: option.splits)
  next
    case False
    then obtain d where d: "init_description f kw = Some d" "d \<noteq> []"
      by (auto simp: falsy_def split: option.splits)
    show ?thesis
    proof (cases loop)
      case (Inl e)
      with l have "2 \<le> n" by blast
      with Inl d show ?thesis
        by (simp add: Command_init_def loop_def [symmetric] falsy_def)
    next
      case (Inr st)
      with l have "\<not> 2 \<le> n" by auto
      with Inr d a [OF Inr] show ?thesis
        by (auto simp: Command_init_def loop_def [symmetric] falsy_def split: option.splits)
    qed
  qed
  then show ?thesis
    unfolding n_def cs_def .
qed

theorem Command_init_binds_last_Context_witness:
  "Command_init ex_choice_option two_ctx_handler no_kwargs [] =
       Inr (Command None ''hello'' ''Hello World!'' None None True [] (Some (''other'', ex_cls)) []
              None DefaultCheck (UserFn 20), [])
   \<and> ctx_arg (Command None ''hello'' ''Hello World!'' None None True []
        (Some (''other'', ex_cls)) [] None DefaultCheck (UserFn 20))
      = Some (last (List.map_filter (ctx_param (h_eval two_ctx_handler)) (h_params two_ctx_handler)))
   \<and> \<not> falsy (init_description two_ctx_handler no_kwargs)
   \<and> \<not> 2 \<le> length (filter (unannotated_required (h_eval two_ctx_handler))
                      (h_params two_ctx_handler))
   \<and> List.map_filter (ctx_param (h_eval two_ctx_handler)) (h_params two_ctx_handler) \<noteq> []"
proof -
  have i: "Command_init ex_choice_option two_ctx_handler no_kwargs [] =
       Inr (Command None ''hello'' ''Hello World!'' None None True [] (Some (''other'', ex_cls)) []
              None DefaultCheck (UserFn 20), [])"
    by (simp add: init_defs init_ex_defs)
  then have n: "\<not> (\<exists>e. Command_init ex_choice_option two_ctx_handler no_kwargs [] = Inl e)"
    by simp
  from Command_init_binds_last_Context [of ex_choice_option two_ctx_handler no_kwargs "[]"] i n
  show ?thesis by simp
qed

text \<open>
  Claim C6 says that the clone is required if and only if the parameter has no default.
  For \<^verbatim>\<open>repeat(ctx: Context, message: msg_opt = ...)\<close> with a prototype that has
  \<^verbatim>\<open>required=True\<close> the stored clone is required although the parameter has a default.
\<close>

theorem Command_init_required_counterexample:
  "p_has_default repeat_default_p
   \<and> Command_init ex_choice_option repeat_default_handler no_kwargs [msg_opt] =
       Inr (Command None ''repeat'' ''Make the bot repeat your message.'' None None True []
              (Some (''ctx'', ex_cls)) [(''message'', 1)] None DefaultCheck (UserFn 21),
            [msg_opt, msg_opt\<lparr>opt_name := Some ''message''\<rparr>])
   \<and> opt_required (msg_opt\<lparr>opt_name := Some ''message''\<rparr>) = True"
  by (simp add: init_defs init_ex_defs)

text \<open>
  Claim C6, as the code has it: for a parameter annotated with an \<^verbatim>\<open>Option\<close> object,
  \<^verbatim>\<open>self.options\<close> holds under the parameter's name a new object, not in the store
  before; every object that was in the store, the prototype among them, is unchanged; the
  new object is the prototype with \<^verbatim>\<open>required\<close> set to true if the parameter has no
  default, and left as the prototype has it otherwise, and with the parameter's name as its
  name exactly when the prototype has none. Parameter names are distinct, as they are in any
  Python signature.
\<close>

theorem Command_init_stores_clone:
  assumes "Command_init co f kw heap = Inr (cmd, heap')"
      and "distinct (map p_name (h_params f))"
      and "p \<in> set (h_params f)"
      and "resolve (h_eval f) (p_annotation p) = AOption a"
      and "a < length heap"
  shows "\<exists>t. map_of (options cmd) (p_name p) = Some t
           \<and> length heap \<le> t \<and> t < length heap'
           \<and> heap' ! t = stored_option p (heap ! a)
           \<and> take (length heap) heap' = heap"
proof -
  from assms(1) obtain st where
    l: "inspect_params co (h_eval f) (init_name f kw) (h_params f)
          \<lparr>found_self_arg = False, st_ctx_arg = None, st_options = [], st_heap = heap\<rparr> = Inr st"
    and o: "options cmd = st_options st" and h: "heap' = st_heap st"
    by (auto simp: Command_init_def split: option.splits if_splits sum.splits)
  from inspect_params_heap_grows [OF l] have "take (length heap) heap' = heap"
    by (auto simp: h)
  with inspect_params_stores [OF l assms(2) assms(3) assms(4)] assms(5) o h show ?thesis
    by auto
qed


theorem Command_init_stores_clone_witness:
  "Command_init ex_choice_option repeat_default_handler no_kwargs [msg_opt] =
       Inr (Command None ''repeat'' ''Make the bot repeat your message.'' None None True []
              (Some (''ctx'', ex_cls)) [(''message'', 1)] None DefaultCheck (UserFn 21),
            [msg_opt, msg_opt\<lparr>opt_name := Some ''message''\<rparr>])
   \<and> (\<exists>t. map_of [(''message'', 1)] ''message'' = Some t \<and> 1 \<le> t \<and> t < 2
          \<and> [msg_opt, msg_opt\<lparr>opt_name := Some ''message''\<rparr>] ! t
              = stored_option repeat_default_p msg_opt)"
proof -
  have i: "Command_init ex_choice_option repeat_default_handler no_kwargs [msg_opt] =
       Inr (Command None ''repeat'' ''Make the bot repeat your message.'' None None True []
              (Some (''ctx'', ex_cls)) [(''message'', 1)] None DefaultCheck (UserFn 21),
            [msg_opt, msg_opt\<lparr>opt_name := Some ''message''\<rparr>])"
    by (simp add: init_defs init_ex_defs)
  have d: "distinct (map p_name (h_params repeat_default_handler))"
    by (simp add: init_ex_defs)
  have m: "repeat_default_p \<in> set (h_params repeat_default_handler)"
    by (simp add: repeat_default_handler_def)
  have r: "resolve (h_eval repeat_default_handler) (p_annotation repeat_default_p) = AOption 0"
    by (simp add: resolve_def init_ex_defs)
  from Command_init_stores_clone [OF i d m r] i show ?thesis
    by (simp add: repeat_default_p_def)
qed

text \<open>
  Claim C7: with a description given, construction raises a \<^verbatim>\<open>TypeError\<close> exactly when
  at least two parameters are required and have no valid annotation (none of an
  \<^verbatim>\<open>Option\<close> object, a \<^verbatim>\<open>ChoiceEnum\<close> subclass, a \<^verbatim>\<open>Context\<close> subclass): the first
  such parameter is passed over, the second one fails. With two such parameters
  construction fails in any case (without a description, with the \<^verbatim>\<open>ValueError\<close> that
  is raised before the parameters are looked at).
\<close>

theorem Command_init_TypeError_iff:
  "(\<exists>msg. Command_init co f kw heap = Inl (TypeError msg))
     = (\<not> falsy (init_description f kw)
        \<and> 2 \<le> length (filter (unannotated_required (h_eval f)) (h_params f)))
   \<and> (2 \<le> length (filter (unannotated_required (h_eval f)) (h_params f))
        \<longrightarrow> (\<exists>e. Command_init co f kw heap = Inl e))"
proof -
  let ?loop = "inspect_params co (h_eval f) (init_name f kw) (h_params f)
     \<lparr>found_self_arg = False, st_ctx_arg = None, st_options = [], st_heap = heap\<rparr>"
  have l: "(\<exists>e. ?loop = Inl e)
     = (2 \<le> length (filter (unannotated_required (h_eval f)) (h_params f)))"
    by (simp add: inspect_params_fails_iff)
  have t: "?loop = Inl e \<Longrightarrow> \<exists>msg. e = TypeError msg" for e
    by (drule inspect_params_error) simp
  show ?thesis
  proof (cases "?loop")
    case (Inl e)
    with t obtain msg where "e = TypeError msg" by blast
    with Inl l show ?thesis
      by (auto simp: Command_init_def falsy_def split: option.splits)
  next
    case (Inr st)
    with l show ?thesis
      by (auto simp: Command_init_def falsy_def split: option.splits)
  qed
qed

theorem Command_init_TypeError_iff_witness:
  "2 \<le> length (filter (unannotated_required (h_eval method_handler)) (h_params method_handler))
   \<and> Command_init ex_choice_option method_handler no_kwargs [] =
       Inl (TypeError ''Command 'kick' cannot have a required argument with no valid annotation'')
   \<and> length (filter (unannotated_required (h_eval ping_handler)) (h_params ping_handler)) = 1
   \<and> Command_init ex_choice_option ping_handler no_kwargs [] =
       Inr (Command None ''ping'' ''Pong.'' None None True [] (Some (''ctx'', ex_cls)) []
              None DefaultCheck (UserFn 23), [])"
proof -
  have n: "2 \<le> length (filter (unannotated_required (h_eval method_handler)) (h_params method_handler))"
    by (simp add: unannotated_required_def resolve_def valid_annotation_def init_ex_defs)
  have "Command_init ex_choice_option method_handler no_kwargs [] =
       Inl (TypeError ''Command 'kick' cannot have a required argument with no valid annotation'')"
    by (simp add: init_defs init_ex_defs repr_def)
  moreover have "length (filter (unannotated_required (h_eval ping_handler)) (h_params ping_handler)) = 1"
    by (simp add: unannotated_required_def resolve_def valid_annotation_def init_ex_defs
          ping_handler_def)
  moreover have "Command_init ex_choice_option ping_handler no_kwargs [] =
       Inr (Command None ''ping'' ''Pong.'' None None True [] (Some (''ctx'', ex_cls)) []
              None DefaultCheck (UserFn 23), [])"
    by (simp add: init_defs init_ex_defs ping_handler_def)
  ultimately show ?thesis
    using Command_init_TypeError_iff [of ex_choice_option method_handler no_kwargs "[]"] n
    by simp
qed


section \<open>Permission overrides\<close>

lemma map_of_dict_update:
  "distinct (map fst items) \<Longrightarrow> map_of (dict_update d items) = map_of d ++ map_of items"
proof (induction items arbitrary: d)
  case Nil
  then show ?case by (simp add: dict_update_def)
next
  case (Cons kv items)
  obtain k v where kv: "kv = (k, v)" by (cases kv)
  from Cons.prems kv have nk: "k \<notin> fst ` set items" and di: "distinct (map fst items)"
    by auto
  from nk have none: "map_of items k = None"
    by (simp add: map_of_eq_None_iff)
  have step: "dict_update d ((k, v) # items) = dict_update (AList.update k v d) items"
    by (simp add: dict_update_def)
  have ih: "map_of (dict_update (AList.update k v d) items)
      = map_of (AList.update k v d) ++ map_of items"
    by (rule Cons.IH [OF di])
  show ?case
  proof
    fix x
    show "map_of (dict_update d (kv # items)) x = (map_of d ++ map_of (kv # items)) x"
      using none
      by (cases "x = k") (auto simp: step ih kv map_add_def update_conv' split: option.splits)
  qed
qed

lemma permissions_set_permissions [simp]: "permissions (set_permissions c pm) = pm"
  by (cases c) simp

lemma cmd_id_set_permissions [simp]: "cmd_id (set_permissions c pm) = cmd_id c"
  by (cases c) simp

text \<open>
  Claim C8: \<^verbatim>\<open>perms_dict(guild)\<close> returns the command's id and one entry
  \<^verbatim>\<open>{id, type, permission}\<close> for each key of the merged dictionary, which maps a target
  to its override for the guild if there is one and to its global override otherwise (the
  keys of a dictionary are distinct). After a global override \<^verbatim>\<open>True\<close> and an override
  \<^verbatim>\<open>False\<close> in guild \<open>g\<close> for the same target, on a command that had none, the result for
  \<open>g\<close> has the one entry with \<^verbatim>\<open>False\<close> and the result for any other guild the one
  entry with \<^verbatim>\<open>True\<close>.
\<close>

theorem perms_dict_merge:
  "(distinct (map fst (dict_get (permissions self) guild)) \<longrightarrow>
      perms_dict tv self guild =
        \<lparr>pd_id = cmd_id self,
         pd_permissions =
           map (\<lambda>((oid, ty), perm). \<lparr>pe_id = oid, pe_type = tv ty, pe_permission = perm\<rparr>)
             (merged_permissions self guild)\<rparr>
      \<and> map_of (merged_permissions self guild)
          = map_of (dict_get (permissions self) None) ++ map_of (dict_get (permissions self) guild))
   \<and> (permissions c0 = []
        \<and> add_perm c0 tgt True (Guild None) (Some t) = Inr c1
        \<and> add_perm c1 tgt False (Guild (Some g)) (Some t) = Inr c2 \<longrightarrow>
         pd_permissions (perms_dict tv c2 (Some g))
           = [\<lparr>pe_id = target_id tgt, pe_type = tv t, pe_permission = False\<rparr>]
         \<and> (\<forall>g'. g' \<noteq> Some g \<longrightarrow>
               pd_permissions (perms_dict tv c2 g')
                 = [\<lparr>pe_id = target_id tgt, pe_type = tv t, pe_permission = True\<rparr>]))"
proof (intro conjI impI allI)
  assume "distinct (map fst (dict_get (permissions self) guild))"
  then show "map_of (merged_permissions self guild)
      = map_of (dict_get (permissions self) None) ++ map_of (dict_get (permissions self) guild)"
    by (simp add: merged_permissions_def map_of_dict_update)
next
  show "perms_dict tv self guild =
        \<lparr>pd_id = cmd_id self,
         pd_permissions =
           map (\<lambda>((oid, ty), perm). \<lparr>pe_id = oid, pe_type = tv ty, pe_permission = perm\<rparr>)
             (merged_permissions self guild)\<rparr>"
    by (simp add: perms_dict_def)
next
  assume a: "permissions c0 = []
        \<and> add_perm c0 tgt True (Guild None) (Some t) = Inr c1
        \<and> add_perm c1 tgt False (Guild (Some g)) (Some t) = Inr c2"
  then have p2: "permissions c2 =
      [(None, [((target_id tgt, t), True)]), (Some g, [((target_id tgt, t), False)])]"
    by (auto simp: add_perm_def infer_type_def infer_guild_def dict_get_def)
  show "pd_permissions (perms_dict tv c2 (Some g))
           = [\<lparr>pe_id = target_id tgt, pe_type = tv t, pe_permission = False\<rparr>]"
    by (simp add: perms_dict_def merged_permissions_def dict_get_def dict_update_def p2)
  fix g' :: "int option"
  assume "g' \<noteq> Some g"
  then show "pd_permissions (perms_dict tv c2 g')
                 = [\<lparr>pe_id = target_id tgt, pe_type = tv t, pe_permission = True\<rparr>]"
    by (cases g') (simp_all add: perms_dict_def merged_permissions_def dict_get_def dict_update_def p2)
qed


theorem perms_dict_merge_witness:
  "permissions stop_cmd = []
   \<and> add_perm stop_cmd (Object 42) True (Guild None) (Some ROLE) = Inr stop_global
   \<and> add_perm stop_global (Object 42) False (Guild (Some 1001)) (Some ROLE) = Inr stop_scoped
   \<and> distinct (map fst (dict_get (permissions stop_scoped) (Some 1001)))
   \<and> map_of (merged_permissions stop_scoped (Some 1001)) (42, ROLE) = Some False
   \<and> perms_dict ex_type_value stop_scoped (Some 1001) =
       \<lparr>pd_id = None, pd_permissions = [\<lparr>pe_id = 42, pe_type = 1, pe_permission = False\<rparr>]\<rparr>
   \<and> pd_permissions (perms_dict ex_type_value stop_scoped (Some 2002))
       = [\<lparr>pe_id = 42, pe_type = 1, pe_permission = True\<rparr>]
   \<and> pd_permissions (perms_dict ex_type_value stop_scoped None)
       = [\<lparr>pe_id = 42, pe_type = 1, pe_permission = True\<rparr>]"
proof -
  have p0: "permissions stop_cmd = []"
    by (simp add: stop_cmd_def)
  have a1: "add_perm stop_cmd (Object 42) True (Guild None) (Some ROLE) = Inr stop_global"
    by (simp add: add_perm_def infer_type_def infer_guild_def dict_get_def stop_cmd_def
          stop_global_def)
  have a2: "add_perm stop_global (Object 42) False (Guild (Some 1001)) (Some ROLE) = Inr stop_scoped"
    by (simp add: add_perm_def infer_type_def infer_guild_def dict_get_def stop_global_def
          stop_scoped_def)
  have d: "distinct (map fst (dict_get (permissions stop_scoped) (Some 1001)))"
    by (simp add: dict_get_def stop_scoped_def)
  have g: "dict_get (permissions stop_scoped) None = [((42, ROLE), True)]"
    "dict_get (permissions stop_scoped) (Some 1001) = [((42, ROLE), False)]"
    by (simp_all add: dict_get_def stop_scoped_def)
  have i: "cmd_id stop_scoped = None"
    by (simp add: stop_scoped_def)
  have mp: "merged_permissions stop_scoped (Some 1001) = [((42, ROLE), False)]"
    by (simp add: merged_permissions_def g dict_update_def)
  from perms_dict_merge [where self = stop_scoped and guild = "Some 1001" and tv = ex_type_value
      and ?c0.0 = stop_cmd and tgt = "Object 42" and t = ROLE and ?c1.0 = stop_global
      and g = 1001 and ?c2.0 = stop_scoped] p0 a1 a2 d
  show ?thesis
    by (simp add: g i mp perms_dict_def ex_type_value_def)
qed


section \<open>Component callbacks\<close>




text \<open>
  A registered callback that is the same element as the invoked one is taken out in its
  place: with the callback at address 0 registered, the invocation of its twin at address 1
  leaves the set empty.
\<close>

lemma equal_twin_is_discarded:
  "same_element twin_world 0 1
   \<and> comp_callbacks (w_bot (snd (cb_invoke ex_impl ex_repr 1 confirm_ctx twin_world))) = {}"
  by (simp add: same_element_def shared_matcher_def cb_invoke_def Let_def twin_world_def
        ComponentCallback_init_def BaseCallback_init_def use_up_def deregister_def
        handler_call_def happen_def ex_impl_def)

end
